theory Spec2Isabelle
  imports Complex_Main "HOL-Library.AList"
begin

section \<open>Values, dictionaries and objects\<close>

text \<open>
  The module \<open>yass/config.py\<close> works on the result of a YAML parse: scalars, lists and
  dictionaries, nested at will. \<open>val\<close> is that data. A dictionary is an association list
  in iteration order; its keys are strings (the keys of a parameter file). A Python float is
  held as the rational it denotes: rounding of IEEE doubles, infinities and NaN are not
  part of this model. \<open>VOpaque\<close> stands for a host object the module only passes around
  (a logger, an array returned by the geometry module).
\<close>

datatype val =
    VNone
  | VBool bool
  | VInt int
  | VFloat rat
  | VStr string
  | VList "val list"
  | VMap "(string \<times> val) list"
  | VOpaque string

type_synonym pydict = "(string \<times> val) list"

text \<open>
  An instance of \<open>FrozenJSON\<close> or \<open>Config\<close> is its instance dictionary \<open>__dict__\<close>:
  \<open>__init__\<close> fills it with \<open>_logger\<close>, \<open>_path_to_file\<close> and \<open>_data\<close>, and
  \<open>Config.__setattr__\<close> writes to it by name.
\<close>

type_synonym obj = pydict

text \<open>
  What an expression of the module evaluates to: a \<open>FrozenJSON\<close> instance, a list of
  such results, a plain value, or a member of the raw dictionary (\<open>getattr(self._data, name)\<close>,
  for instance the bound method \<open>keys\<close>).
\<close>

datatype pyobj =
    Facade obj
  | Seq "pyobj list"
  | Plain val
  | BoundMethod string

text \<open>
  Exceptions. Both \<open>ValueError\<close>s of the module keep the arguments of their message
  instead of the formatted text: \<open>ValueError_NoValue path key keys\<close> is raised by
  \<open>__getitem__\<close>, \<open>ValueError_NotValid value key pretty\<close> by \<open>_validate\<close>.
  \<open>AttributeError\<close> carries its message. \<open>External\<close> is an exception raised by a
  collaborator (the geometry module, \<open>os.path.getsize\<close>).
\<close>

datatype error =
    ValueError_NoValue val string "string list"
  | ValueError_NotValid val string string
  | KeyError pyobj
  | AttributeError string
  | TypeError
  | ZeroDivisionError
  | External string

definition bindE :: "error + 'a \<Rightarrow> ('a \<Rightarrow> error + 'b) \<Rightarrow> error + 'b" where
  "bindE r f = (case r of Inl e \<Rightarrow> Inl e | Inr x \<Rightarrow> f x)"

definition startswith :: "string \<Rightarrow> string \<Rightarrow> bool" where
  "startswith s prefix = (take (length prefix) s = prefix)"

fun contains :: "string \<Rightarrow> string \<Rightarrow> bool" where
  "contains [] sub = (sub = [])"
| "contains (c # cs) sub = (startswith (c # cs) sub \<or> contains cs sub)"

section \<open>FrozenJSON\<close>

text \<open>
  \<open>keyword.kwlist\<close> of the standard library (CPython 3.6) and the attribute names of a
  \<open>dict\<close> instance (\<open>dir(dict)\<close>, CPython 3.6): the two tables of the host language that
  \<open>keyword.iskeyword\<close> and \<open>hasattr(self._data, name)\<close> consult.
\<close>

definition kwlist :: "string list" where
  "kwlist = [''False'', ''None'', ''True'', ''and'', ''as'', ''assert'', ''break'',
     ''class'', ''continue'', ''def'', ''del'', ''elif'', ''else'', ''except'',
     ''finally'', ''for'', ''from'', ''global'', ''if'', ''import'', ''in'', ''is'',
     ''lambda'', ''nonlocal'', ''not'', ''or'', ''pass'', ''raise'', ''return'', ''try'',
     ''while'', ''with'', ''yield'']"

definition iskeyword :: "string \<Rightarrow> bool" where
  "iskeyword key = (key \<in> set kwlist)"

definition dict_attrs :: "string list" where
  "dict_attrs = [''__class__'', ''__contains__'', ''__delattr__'', ''__delitem__'',
     ''__dir__'', ''__doc__'', ''__eq__'', ''__format__'', ''__ge__'',
     ''__getattribute__'', ''__getitem__'', ''__gt__'', ''__hash__'', ''__init__'',
     ''__init_subclass__'', ''__iter__'', ''__le__'', ''__len__'', ''__lt__'', ''__ne__'',
     ''__new__'', ''__reduce__'', ''__reduce_ex__'', ''__repr__'', ''__setattr__'',
     ''__setitem__'', ''__sizeof__'', ''__str__'', ''__subclasshook__'', ''clear'',
     ''copy'', ''fromkeys'', ''get'', ''items'', ''keys'', ''pop'', ''popitem'',
     ''setdefault'', ''update'', ''values'']"

definition hasattr_dict :: "string \<Rightarrow> bool" where
  "hasattr_dict name = (name \<in> set dict_attrs)"

text \<open>
  \<open>FrozenJSON.__init__\<close>, lines 43 to 55. The loop stores each value raw under its key,
  with \<open>'_'\<close> appended to a key that is a keyword; \<open>self._data[key] = value\<close> replaces the
  value of a key already there and appends a new key otherwise (\<open>AList.update\<close>).
\<close>

definition store_key :: "string \<Rightarrow> string" where
  "store_key key = (if iskeyword key then key @ ''_'' else key)"

fun fill_data :: "(string \<times> val) list \<Rightarrow> pydict \<Rightarrow> pydict" where
  "fill_data [] d = d"
| "fill_data ((key, v) # rest) d = fill_data rest (AList.update (store_key key) v d)"

definition FrozenJSON_init :: "(string \<times> val) list \<Rightarrow> obj" where
  "FrozenJSON_init mapping =
     [(''_logger'', VOpaque ''logger''),
      (''_path_to_file'', VNone),
      (''_data'', VMap (fill_data mapping []))]"

text \<open>
  \<open>FrozenJSON(arg)\<close>: \<open>__new__\<close>, lines 34 to 41, followed by \<open>__init__\<close> when \<open>__new__\<close>
  returned an instance. The spec calls it \<open>wrap\<close>.
\<close>

fun FrozenJSON_new :: "val \<Rightarrow> pyobj" where
  "FrozenJSON_new (VMap m) = Facade (FrozenJSON_init m)"
| "FrozenJSON_new (VList xs) = Seq (map FrozenJSON_new xs)"
| "FrozenJSON_new v = Plain v"

text \<open>
  \<open>from_yaml\<close>, lines 18 to 32, after the file has been read and parsed into \<open>mapping\<close>:
  the instance is built and the path recorded.
\<close>

definition from_yaml :: "string \<Rightarrow> (string \<times> val) list \<Rightarrow> obj" where
  "from_yaml path_to_file mapping =
     AList.update ''_path_to_file'' (VStr path_to_file) (FrozenJSON_init mapping)"

text \<open>
  Reading the instance attributes \<open>self._data\<close> and \<open>self._path_to_file\<close>. Every instance
  has both once \<open>__init__\<close> has run and nothing in the module deletes one. An instance whose
  \<open>_data\<close> was replaced from outside by something that is no dictionary has no store
  (\<open>None\<close>); the methods below raise on it.
\<close>

definition self_data :: "obj \<Rightarrow> pydict option" where
  "self_data self = (case map_of self ''_data'' of Some (VMap d) \<Rightarrow> Some d | _ \<Rightarrow> None)"

definition self_path_to_file :: "obj \<Rightarrow> val" where
  "self_path_to_file self = (case map_of self ''_path_to_file'' of Some p \<Rightarrow> p | None \<Rightarrow> VNone)"

definition no_store :: error where
  "no_store = AttributeError ''_data is not a dictionary''"

text \<open>\<open>__getattr__\<close>, lines 57 to 61.\<close>

definition FrozenJSON_getattr :: "obj \<Rightarrow> string \<Rightarrow> error + pyobj" where
  "FrozenJSON_getattr self name =
     (case self_data self of
        None \<Rightarrow> Inl no_store
      | Some d \<Rightarrow>
          if hasattr_dict name then Inr (BoundMethod name)
          else (case map_of d name of
                  None \<Rightarrow> Inl (KeyError (Plain (VStr name)))
                | Some v \<Rightarrow> Inr (FrozenJSON_new v)))"

text \<open>
  \<open>obj.keys()\<close>: the attribute \<open>keys\<close> resolves through \<open>__getattr__\<close> to the bound method of
  the raw dictionary, which is then called. \<open>__dir__\<close>, lines 63 and 64, returns the same.
\<close>

definition FrozenJSON_keys :: "obj \<Rightarrow> error + string list" where
  "FrozenJSON_keys self =
     (case FrozenJSON_getattr self ''keys'' of
        Inl e \<Rightarrow> Inl e
      | Inr m \<Rightarrow>
          (case self_data self of
             None \<Rightarrow> Inl no_store
           | Some d \<Rightarrow> if m = BoundMethod ''keys'' then Inr (map fst d) else Inl TypeError))"

text \<open>\<open>__getitem__\<close>, lines 66 to 75; \<open>dict.get\<close> returns \<open>None\<close> for a key that is absent.\<close>

definition dict_get :: "pydict \<Rightarrow> string \<Rightarrow> val" where
  "dict_get d key = (case map_of d key of None \<Rightarrow> VNone | Some v \<Rightarrow> v)"

definition FrozenJSON_getitem :: "obj \<Rightarrow> string \<Rightarrow> error + val" where
  "FrozenJSON_getitem self key =
     (case self_data self of
        None \<Rightarrow> Inl no_store
      | Some d \<Rightarrow>
          (let v = dict_get d key
           in if v = VNone
              then Inl (ValueError_NoValue (self_path_to_file self) key (map fst d))
              else Inr v))"

text \<open>
  A dictionary has each key once. \<open>has_store\<close> says that the instance holds a dictionary
  under \<open>_data\<close>; every instance the module builds does.
\<close>

definition has_store :: "obj \<Rightarrow> bool" where
  "has_store self = (case self_data self of None \<Rightarrow> False | Some d \<Rightarrow> distinct (map fst d))"

text \<open>
  The three branches of \<open>__new__\<close> as predicates on the argument: a \<open>Mapping\<close>, a
  \<open>MutableSequence\<close>, anything else (a scalar).
\<close>

fun is_scalar :: "val \<Rightarrow> bool" where
  "is_scalar (VMap m) = False"
| "is_scalar (VList xs) = False"
| "is_scalar v = True"

section \<open>Config\<close>

text \<open>
  What \<open>Config.__init__\<close> takes from outside the module. The bundled schema
  \<open>assets/config_validator.yaml\<close> is not among the sources: it is the parameter
  \<open>validator\<close>, a mapping from key names to their lists of permitted values, which are
  strings (\<open>_pretty_iterator\<close> joins them with \<open>+\<close>). The three functions of the geometry
  module and \<open>os.path.getsize\<close> are collaborators: they return a value or raise.
\<close>

record env =
  validator :: "(string \<times> string list) list"
  geom_parse :: "string \<Rightarrow> pyobj \<Rightarrow> error + val"
  find_channel_neighbors :: "pyobj \<Rightarrow> pyobj \<Rightarrow> error + val"
  make_channel_groups :: "pyobj \<Rightarrow> pyobj \<Rightarrow> pyobj \<Rightarrow> error + val"
  getsize :: "string \<Rightarrow> error + nat"

text \<open>
  A run of \<open>__init__\<close>: the instance under construction and, as an observation that no
  definition reads, the calls of \<open>_set_param\<close> made so far, each with the name written and the
  keys the store had just before.
\<close>

record run =
  inst :: obj
  written :: "(string \<times> string list) list"

text \<open>\<open>__setattr__\<close>, lines 169 to 174: the result of the call and the instance after it.\<close>

definition Config_setattr :: "obj \<Rightarrow> string \<Rightarrow> val \<Rightarrow> (error + unit) \<times> obj" where
  "Config_setattr self name v =
     (if \<not> startswith name ''_''
      then (Inl (AttributeError ''Cannot set values once the object has been initialized''), self)
      else (Inr (), AList.update name v self))"

text \<open>\<open>_set_param\<close>, lines 176 to 181: \<open>self._data[name] = value\<close>.\<close>

definition set_param :: "string \<Rightarrow> val \<Rightarrow> run \<Rightarrow> error + run" where
  "set_param name v c =
     (case self_data (inst c) of
        None \<Rightarrow> Inl no_store
      | Some d \<Rightarrow>
          Inr \<lparr>inst = AList.update ''_data'' (VMap (AList.update name v d)) (inst c),
               written = written c @ [(name, map fst d)]\<rparr>)"

text \<open>
  \<open>_pretty_iterator\<close>, lines 200 and 201: \<open>reduce\<close> without an initial value raises
  \<open>TypeError\<close> on an empty sequence. \<open>_validate\<close>, lines 183 to 198: a schema entry that is
  absent or an empty list is falsy and skips the check; a value that is no string equals no
  permitted value.
\<close>

fun pretty_iterator :: "string list \<Rightarrow> error + string" where
  "pretty_iterator [] = Inl TypeError"
| "pretty_iterator (x # xs) = Inr (foldl (\<lambda>a b. a @ '', '' @ b) x xs)"

definition value_in :: "val \<Rightarrow> string list \<Rightarrow> bool" where
  "value_in v valid_values = (case v of VStr s \<Rightarrow> s \<in> set valid_values | _ \<Rightarrow> False)"

fun validate :: "(string \<times> string list) list \<Rightarrow> (string \<times> val) list \<Rightarrow> error + unit" where
  "validate schema [] = Inr ()"
| "validate schema ((key, v) # rest) =
     (case map_of schema key of
        None \<Rightarrow> validate schema rest
      | Some valid_values \<Rightarrow>
          if valid_values \<noteq> [] \<and> \<not> value_in v valid_values
          then bindE (pretty_iterator valid_values) (\<lambda>p. Inl (ValueError_NotValid v key p))
          else validate schema rest)"

text \<open>
  The arithmetic of \<open>__init__\<close>, with Python 3 division. A value that is no number makes
  each of the expressions below raise \<open>TypeError\<close>; \<open>bool\<close> is a subtype of \<open>int\<close>.
  \<open>spikeSize\<close>, \<open>size\<close>, \<open>dsize\<close> and \<open>nBatches\<close> are read back right after \<open>__init__\<close>
  stored an \<open>int\<close> under them (\<open>as_int\<close>). \<open>np.round\<close> rounds a tie to the even
  neighbour, \<open>int\<close> truncates towards zero.
\<close>

definition as_num :: "pyobj \<Rightarrow> error + rat" where
  "as_num x =
     (case x of
        Plain (VInt i) \<Rightarrow> Inr (of_int i)
      | Plain (VFloat r) \<Rightarrow> Inr r
      | Plain (VBool b) \<Rightarrow> Inr (if b then 1 else 0)
      | _ \<Rightarrow> Inl TypeError)"

definition as_int :: "pyobj \<Rightarrow> error + int" where
  "as_int x =
     (case x of
        Plain (VInt i) \<Rightarrow> Inr i
      | Plain (VBool b) \<Rightarrow> Inr (if b then 1 else 0)
      | _ \<Rightarrow> Inl TypeError)"

definition round_half_even :: "rat \<Rightarrow> int" where
  "round_half_even r =
     (let f = \<lfloor>r\<rfloor>; d = r - of_int f
      in if d < 1 / 2 then f else if 1 / 2 < d then f + 1 else if even f then f else f + 1)"

definition trunc :: "rat \<Rightarrow> int" where
  "trunc r = (if 0 \<le> r then \<lfloor>r\<rfloor> else \<lceil>r\<rceil>)"

text \<open>\<open>os.path.join\<close> of two components (POSIX); a component that is no string raises.\<close>

definition path_join :: "pyobj \<Rightarrow> pyobj \<Rightarrow> error + string" where
  "path_join a b =
     (case (a, b) of
        (Plain (VStr p), Plain (VStr q)) \<Rightarrow>
          Inr (if startswith q ''/'' then q
               else if p = [] \<or> last p = CHR ''/'' then p @ q
               else p @ ''/'' @ q)
      | _ \<Rightarrow> Inl TypeError)"

text \<open>
  \<open>sizeof\<close>, lines 204 to 209: a lookup in the table \<open>SIZE_\<close>. A key that is not in the
  table raises \<open>KeyError\<close>, a list (unhashable) \<open>TypeError\<close>.
\<close>

definition SIZE_table :: "(string \<times> int) list" where
  "SIZE_table = [(''int16'', 2), (''uint16'', 2), (''single'', 4), (''double'', 8)]"

definition sizeof :: "pyobj \<Rightarrow> error + int" where
  "sizeof dtype =
     (case dtype of
        Plain (VStr s) \<Rightarrow>
          (case map_of SIZE_table s of None \<Rightarrow> Inl (KeyError dtype) | Some n \<Rightarrow> Inr n)
      | Plain (VList xs) \<Rightarrow> Inl TypeError
      | Plain (VMap m) \<Rightarrow> Inl TypeError
      | Seq xs \<Rightarrow> Inl TypeError
      | _ \<Rightarrow> Inl (KeyError dtype))"

text \<open>
  \<open>Config.__init__\<close> after validation and \<open>FrozenJSON.__init__\<close>, in three parts. Every
  \<open>self.name\<close> is \<open>__getattr__\<close> on the instance as it is at that point; the logging calls
  only read attributes written just before and are left out.

  Lines 106 to 117, the geometry parameters.
\<close>

definition derive_geometry :: "env \<Rightarrow> run \<Rightarrow> error + run" where
  "derive_geometry e c0 =
     bindE (FrozenJSON_getattr (inst c0) ''root'') (\<lambda>root.
     bindE (FrozenJSON_getattr (inst c0) ''geomFile'') (\<lambda>geomFile.
     bindE (path_join root geomFile) (\<lambda>path_to_geom.
     bindE (FrozenJSON_getattr (inst c0) ''nChan'') (\<lambda>nChan.
     bindE (geom_parse e path_to_geom nChan) (\<lambda>g.
     bindE (set_param ''geom'' g c0) (\<lambda>c1.
     bindE (FrozenJSON_getattr (inst c1) ''geom'') (\<lambda>geom.
     bindE (FrozenJSON_getattr (inst c1) ''spatialRadius'') (\<lambda>spatialRadius.
     bindE (find_channel_neighbors e geom spatialRadius) (\<lambda>neighChannels.
     bindE (set_param ''neighChannels'' neighChannels c1) (\<lambda>c2.
     bindE (FrozenJSON_getattr (inst c2) ''nChan'') (\<lambda>nChan.
     bindE (FrozenJSON_getattr (inst c2) ''neighChannels'') (\<lambda>neigh.
     bindE (FrozenJSON_getattr (inst c2) ''geom'') (\<lambda>geom.
     bindE (make_channel_groups e nChan neigh geom) (\<lambda>channelGroups.
     set_param ''channelGroups'' channelGroups c2))))))))))))))"

text \<open>Lines 130 to 139, the buffer and spike size parameters and the sample count.\<close>

definition derive_sizes :: "env \<Rightarrow> run \<Rightarrow> error + run" where
  "derive_sizes e c0 =
     bindE (FrozenJSON_getattr (inst c0) ''spikeSizeMS'') (\<lambda>a.
     bindE (FrozenJSON_getattr (inst c0) ''srate'') (\<lambda>b.
     bindE (as_num a) (\<lambda>spikeSizeMS.
     bindE (as_num b) (\<lambda>srate.
     bindE (set_param ''spikeSize'' (VInt (round_half_even (spikeSizeMS * srate / 2000))) c0) (\<lambda>c1.
     bindE (set_param ''scaleToSave'' (VInt 100) c1) (\<lambda>c2.
     bindE (FrozenJSON_getattr (inst c2) ''spikeSize'') (\<lambda>s.
     bindE (as_int s) (\<lambda>spikeSize.
     bindE (set_param ''BUFF'' (VInt (spikeSize * 4)) c2) (\<lambda>c3.
     bindE (FrozenJSON_getattr (inst c3) ''srate'') (\<lambda>b.
     bindE (as_num b) (\<lambda>srate.
     bindE (set_param ''templatesMaxShift'' (VInt (trunc (srate / 1000))) c3) (\<lambda>c4.
     bindE (set_param ''stdFactor'' (VInt 4) c4) (\<lambda>c5.
     bindE (FrozenJSON_getattr (inst c5) ''root'') (\<lambda>root.
     bindE (FrozenJSON_getattr (inst c5) ''filename'') (\<lambda>filename.
     bindE (path_join root filename) (\<lambda>path_to_file.
     bindE (getsize e path_to_file) (\<lambda>file_size.
     bindE (FrozenJSON_getattr (inst c5) ''dtype'') (\<lambda>dtype.
     bindE (sizeof dtype) (\<lambda>ds.
     bindE (FrozenJSON_getattr (inst c5) ''nChan'') (\<lambda>n.
     bindE (as_num n) (\<lambda>nChan.
       if of_int ds * nChan = 0 then Inl ZeroDivisionError
       else set_param ''size'' (VInt (trunc (of_nat file_size / (of_int ds * nChan)))) c5
     )))))))))))))))))))))"

text \<open>
  Lines 142 to 156, the batch parameters: the branch of line 146, the branch of line 151,
  and the code around them.
\<close>

definition single_batch :: "run \<Rightarrow> error + run" where
  "single_batch c1 =
     bindE (set_param ''nBatches'' (VInt 1) c1) (\<lambda>c2.
     bindE (FrozenJSON_getattr (inst c2) ''size'') (\<lambda>s.
     bindE (as_int s) (\<lambda>size.
     bindE (set_param ''batch_size'' (VInt size) c2) (\<lambda>c3.
     bindE (set_param ''residual'' (VInt 0) c3) (\<lambda>c4.
     set_param ''nPortion'' (VInt 1) c4)))))"

definition multi_batch :: "int \<Rightarrow> run \<Rightarrow> error + run" where
  "multi_batch batch_size c1 =
     bindE (FrozenJSON_getattr (inst c1) ''size'') (\<lambda>s.
     bindE (as_int s) (\<lambda>size.
       if batch_size = 0 then Inl ZeroDivisionError
       else
         bindE (set_param ''nBatches'' (VInt \<lceil>of_int size / (of_int batch_size :: rat)\<rceil>) c1) (\<lambda>c2.
         bindE (set_param ''batch_size'' (VInt batch_size) c2) (\<lambda>c3.
         bindE (FrozenJSON_getattr (inst c3) ''size'') (\<lambda>s.
         bindE (as_int s) (\<lambda>size.
         bindE (set_param ''residual'' (VInt (size mod batch_size)) c3) (\<lambda>c4.
         bindE (FrozenJSON_getattr (inst c4) ''partialDat'') (\<lambda>p.
         bindE (FrozenJSON_getattr (inst c4) ''nBatches'') (\<lambda>n.
         bindE (as_num p) (\<lambda>partialDat.
         bindE (as_num n) (\<lambda>nBatches.
         set_param ''nPortion'' (VFloat (of_int \<lceil>partialDat * nBatches\<rceil>)) c4)))))))))))"

definition derive_batches :: "run \<Rightarrow> error + run" where
  "derive_batches c0 =
     bindE (FrozenJSON_getattr (inst c0) ''dtype'') (\<lambda>dtype.
     bindE (sizeof dtype) (\<lambda>ds.
     bindE (set_param ''dsize'' (VInt ds) c0) (\<lambda>c1.
     bindE (FrozenJSON_getattr (inst c1) ''maxMem'') (\<lambda>a.
     bindE (FrozenJSON_getattr (inst c1) ''nChan'') (\<lambda>b.
     bindE (FrozenJSON_getattr (inst c1) ''dsize'') (\<lambda>c.
     bindE (as_num a) (\<lambda>maxMem.
     bindE (as_num b) (\<lambda>nChan.
     bindE (as_num c) (\<lambda>dsize.
       if nChan * dsize = 0 then Inl ZeroDivisionError
       else
         let batch_size = \<lfloor>maxMem / (nChan * dsize)\<rfloor> in
         bindE (FrozenJSON_getattr (inst c1) ''size'') (\<lambda>s.
         bindE (as_int s) (\<lambda>size.
           if batch_size > size then single_batch c1 else multi_batch batch_size c1))
     )))))))))"

text \<open>
  \<open>Config(mapping)\<close> for a mapping: \<open>_validate\<close> first, then \<open>FrozenJSON.__init__\<close>, then the
  derived parameters. An exception leaves the caller without an instance.
\<close>

definition Config_init :: "env \<Rightarrow> (string \<times> val) list \<Rightarrow> error + run" where
  "Config_init e mapping =
     bindE (validate (validator e) mapping) (\<lambda>_.
     bindE (derive_geometry e \<lparr>inst = FrozenJSON_init mapping, written = []\<rparr>) (\<lambda>c.
     bindE (derive_sizes e c) derive_batches))"


text \<open>
  Vocabulary for the write log. \<open>trace_ok K w\<close>: every entry of \<open>w\<close> recorded, as the keys
  before its write, the keys \<open>K\<close> together with the names written earlier in \<open>w\<close>.
  \<open>wrote c ns c'\<close>: from \<open>c\<close> to \<open>c'\<close> the names \<open>ns\<close> were written, in this order, and
  nothing else changed in the store.
\<close>

definition trace_ok :: "string set \<Rightarrow> (string \<times> string list) list \<Rightarrow> bool" where
  "trace_ok K w = (\<forall>i<length w. set (snd (w ! i)) = K \<union> set (take i (map fst w)))"


text \<open>The writes of a run that found their key already in the store.\<close>

definition overwritten :: "run \<Rightarrow> string list" where
  "overwritten c = map fst (filter (\<lambda>(k, before). k \<in> set before) (written c))"

text \<open>
  \<open>self.name\<close> as a number and as an \<open>int\<close>, and a key that the schema constrains in the
  sense of the truthiness test of \<open>_validate\<close> with a value outside its permitted list.
\<close>

definition num_attr :: "obj \<Rightarrow> string \<Rightarrow> error + rat" where
  "num_attr self name = bindE (FrozenJSON_getattr self name) as_num"

definition int_attr :: "obj \<Rightarrow> string \<Rightarrow> error + int" where
  "int_attr self name = bindE (FrozenJSON_getattr self name) as_int"

definition violates :: "(string \<times> string list) list \<Rightarrow> string \<Rightarrow> val \<Rightarrow> bool" where
  "violates schema key v =
     (case map_of schema key of
        None \<Rightarrow> False
      | Some valid_values \<Rightarrow> valid_values \<noteq> [] \<and> \<not> value_in v valid_values)"

text \<open>
  A recording setup for concrete runs: ten channels of \<open>int16\<close>, a memory budget of 10000
  bytes, geometry collaborators that return opaque arrays, and three recordings of 24000,
  10000 and 2000 bytes.
\<close>

definition sample_env :: env where
  "sample_env =
     \<lparr>validator = [(''dtype'', [''int16'', ''uint16'', ''single'', ''double''])],
      geom_parse = (\<lambda>p n. Inr (VOpaque ''geom'')),
      find_channel_neighbors = (\<lambda>g r. Inr (VOpaque ''neighbors'')),
      make_channel_groups = (\<lambda>n a g. Inr (VOpaque ''groups'')),
      getsize = (\<lambda>p. if p = ''/data/long.bin'' then Inr 24000
                      else if p = ''/data/short.bin'' then Inr 10000
                      else if p = ''/data/tiny.bin'' then Inr 2000
                      else Inl (External ''FileNotFoundError''))\<rparr>"

definition sample_mapping :: "string \<Rightarrow> val \<Rightarrow> (string \<times> val) list" where
  "sample_mapping filename partialDat =
     [(''root'', VStr ''/data''), (''geomFile'', VStr ''geom.txt''), (''nChan'', VInt 10),
      (''spatialRadius'', VInt 70), (''spikeSizeMS'', VInt 1), (''srate'', VInt 30000),
      (''filename'', VStr filename), (''dtype'', VStr ''int16''), (''maxMem'', VInt 10000),
      (''partialDat'', partialDat)]"

section \<open>Properties of FrozenJSON\<close>

lemma fill_data_distinct: "distinct (map fst d) \<Longrightarrow> distinct (map fst (fill_data m d))"
  by (induction m d rule: fill_data.induct) (simp_all add: distinct_update)

lemma fill_data_keys:
  "fst ` set (fill_data m d) = store_key ` fst ` set m \<union> fst ` set d"
  by (induction m d rule: fill_data.induct) (auto simp: dom_update)

lemma self_data_init [simp]: "self_data (FrozenJSON_init m) = Some (fill_data m [])"
  by (simp add: self_data_def FrozenJSON_init_def)

lemma has_store_init: "has_store (FrozenJSON_init m)"
  by (simp add: has_store_def fill_data_distinct)

lemma self_data_from_yaml [simp]: "self_data (from_yaml p m) = Some (fill_data m [])"
  by (simp add: self_data_def from_yaml_def FrozenJSON_init_def update_conv')

lemma has_store_from_yaml: "has_store (from_yaml p m)"
  by (simp add: has_store_def fill_data_distinct)

lemma map_of_unique:
  assumes "(k, v) \<in> set xs" and "\<And>v'. (k, v') \<in> set xs \<Longrightarrow> v' = v"
  shows "map_of xs k = Some v"
proof (cases "map_of xs k")
  case None
  then have "k \<notin> fst ` set xs"
    by (simp add: map_of_eq_None_iff)
  with assms(1) show ?thesis
    by force
next
  case (Some v')
  then have "(k, v') \<in> set xs"
    by (rule map_of_SomeD)
  with assms(2) Some show ?thesis
    by simp
qed

lemma map_of_fill_data:
  "map_of (fill_data m d) k =
     (case map_of (rev (map (\<lambda>(k', v). (store_key k', v)) m)) k of
        Some v \<Rightarrow> Some v | None \<Rightarrow> map_of d k)"
  by (induction m d rule: fill_data.induct) (auto simp: update_conv' split: option.splits)

lemma keyword_last: "iskeyword s \<Longrightarrow> s \<noteq> [] \<and> last s \<noteq> CHR ''_''"
  by (auto simp: iskeyword_def kwlist_def)

lemma keyword_not_attr: "iskeyword s \<Longrightarrow> \<not> hasattr_dict s \<and> \<not> hasattr_dict (s @ ''_'')"
  by (auto simp: iskeyword_def kwlist_def hasattr_dict_def dict_attrs_def)

lemma store_key_eq_keyword: "iskeyword key \<Longrightarrow> store_key k' \<noteq> key"
  using keyword_last[of key] keyword_last[of k'] by (auto simp: store_key_def)

lemma store_key_eq_renamed:
  "iskeyword key \<Longrightarrow> store_key k' = key @ ''_'' \<Longrightarrow> k' = key \<or> k' = key @ ''_''"
  by (auto simp: store_key_def split: if_splits)

subsection \<open>Indexed lookup\<close>

text \<open>
  C6. On an instance with the store \<open>d\<close>, \<open>__getitem__\<close> returns the raw stored value of
  a key that is present with a value other than \<open>None\<close>; it raises the \<open>ValueError\<close> that
  carries the key, \<open>_path_to_file\<close> and the list of all stored keys exactly when the key
  is absent or stored with \<open>None\<close>.
\<close>

theorem getitem_spec:
  "has_store self \<Longrightarrow> self_data self = Some d \<Longrightarrow>
   (\<forall>v. (key, v) \<in> set d \<and> v \<noteq> VNone \<longrightarrow> FrozenJSON_getitem self key = Inr v) \<and>
   (key \<notin> fst ` set d \<or> (key, VNone) \<in> set d \<longrightarrow>
      FrozenJSON_getitem self key =
        Inl (ValueError_NoValue (self_path_to_file self) key (map fst d))) \<and>
   ((\<exists>e. FrozenJSON_getitem self key = Inl e) \<longleftrightarrow>
      (key \<notin> fst ` set d \<or> (key, VNone) \<in> set d))"
proof -
  assume wf: "has_store self" and sd: "self_data self = Some d"
  from wf sd have dist: "distinct (map fst d)"
    by (simp add: has_store_def)
  have present: "dict_get d key = v" if "(key, v) \<in> set d" for v
    using that dist by (simp add: dict_get_def)
  have absent: "dict_get d key = VNone" if "key \<notin> fst ` set d"
  proof -
    from that have "map_of d key = None" by (simp add: map_of_eq_None_iff)
    then show ?thesis by (simp add: dict_get_def)
  qed
  have cases: "key \<notin> fst ` set d \<or> (\<exists>v. (key, v) \<in> set d)"
    by force
  have get: "FrozenJSON_getitem self key =
      (if dict_get d key = VNone
       then Inl (ValueError_NoValue (self_path_to_file self) key (map fst d))
       else Inr (dict_get d key))"
    using sd by (simp add: FrozenJSON_getitem_def Let_def)
  show ?thesis
    using cases present absent by (auto simp: get)
qed

theorem getitem_spec_witness:
  "FrozenJSON_getitem (from_yaml ''cfg.yaml'' [(''a'', VInt 1), (''b'', VNone)]) ''a'' = Inr (VInt 1) \<and>
   FrozenJSON_getitem (from_yaml ''cfg.yaml'' [(''a'', VInt 1), (''b'', VNone)]) ''b'' =
     Inl (ValueError_NoValue (VStr ''cfg.yaml'') ''b'' [''a'', ''b''])"
proof -
  let ?m = "[(''a'', VInt 1), (''b'', VNone)]"
  let ?self = "from_yaml ''cfg.yaml'' ?m"
  have d: "self_data ?self = Some ?m"
    by (simp add: store_key_def iskeyword_def kwlist_def)
  have p: "self_path_to_file ?self = VStr ''cfg.yaml''"
    by (simp add: self_path_to_file_def from_yaml_def FrozenJSON_init_def)
  from getitem_spec [OF has_store_from_yaml d, of "''a''"]
  have a: "FrozenJSON_getitem ?self ''a'' = Inr (VInt 1)" by simp
  from getitem_spec [OF has_store_from_yaml d, of "''b''"]
  have b: "FrozenJSON_getitem ?self ''b'' =
     Inl (ValueError_NoValue (VStr ''cfg.yaml'') ''b'' [''a'', ''b''])" by (simp add: p)
  from a b show ?thesis by simp
qed

subsection \<open>Attribute access to a missing name\<close>




subsection \<open>Wrapping\<close>

lemma keys_init: "FrozenJSON_keys (FrozenJSON_init m) = Inr (map fst (fill_data m []))"
  by (simp add: FrozenJSON_keys_def FrozenJSON_getattr_def hasattr_dict_def dict_attrs_def)

lemma store_key_id: "\<not> iskeyword k \<Longrightarrow> store_key k = k"
  by (simp add: store_key_def)

text \<open>
  C7, as the code has it. \<open>FrozenJSON(arg)\<close> on a mapping is an instance whose \<open>keys()\<close>
  are the mapping's keys after the keyword renaming of \<open>__init__\<close> (the mapping's own key
  set when no key is a keyword); on a list it is a list of the same length whose
  \<open>i\<close>-th element is \<open>FrozenJSON\<close> of the \<open>i\<close>-th element; a scalar is returned unchanged.
\<close>

theorem wrap_shape:
  "(\<exists>self ks. FrozenJSON_new (VMap m) = Facade self \<and> FrozenJSON_keys self = Inr ks \<and>
       set ks = store_key ` fst ` set m \<and>
       ((\<forall>k \<in> fst ` set m. \<not> iskeyword k) \<longrightarrow> set ks = fst ` set m)) \<and>
   (\<exists>ys. FrozenJSON_new (VList xs) = Seq ys \<and> length ys = length xs \<and>
       (\<forall>i < length xs. ys ! i = FrozenJSON_new (xs ! i))) \<and>
   (is_scalar v \<longrightarrow> FrozenJSON_new v = Plain v)"
proof -
  have keys: "set (map fst (fill_data m [])) = store_key ` fst ` set m"
    using fill_data_keys [of m "[]"] by simp
  have same: "store_key ` fst ` set m = fst ` set m" if "\<forall>k \<in> fst ` set m. \<not> iskeyword k"
    using that by (force simp: store_key_id)
  have a: "\<exists>self ks. FrozenJSON_new (VMap m) = Facade self \<and> FrozenJSON_keys self = Inr ks \<and>
       set ks = store_key ` fst ` set m \<and>
       ((\<forall>k \<in> fst ` set m. \<not> iskeyword k) \<longrightarrow> set ks = fst ` set m)"
    using keys same keys_init [of m] by (metis FrozenJSON_new.simps(1))
  have b: "\<exists>ys. FrozenJSON_new (VList xs) = Seq ys \<and> length ys = length xs \<and>
       (\<forall>i < length xs. ys ! i = FrozenJSON_new (xs ! i))"
    by simp
  have c: "is_scalar v \<longrightarrow> FrozenJSON_new v = Plain v"
    by (cases v) simp_all
  from a b c show ?thesis by blast
qed

theorem wrap_shape_witness:
  "(\<exists>self ks. FrozenJSON_new (VMap [(''nChan'', VInt 10), (''class'', VInt 2)]) = Facade self \<and>
       FrozenJSON_keys self = Inr ks \<and> set ks = {''nChan'', ''class_''}) \<and>
   (\<exists>ys. FrozenJSON_new (VList [VInt 1, VMap []]) = Seq ys \<and> length ys = 2) \<and>
   FrozenJSON_new (VStr ''a'') = Plain (VStr ''a'')"
proof -
  let ?m = "[(''nChan'', VInt 10), (''class'', VInt 2)]"
  let ?xs = "[VInt 1, VMap []]"
  note w = wrap_shape [of ?m ?xs "VStr ''a''"]
  have sk: "store_key ` fst ` set ?m = {''nChan'', ''class_''}"
    by (simp add: store_key_def iskeyword_def kwlist_def)
  from w obtain self ks where s: "FrozenJSON_new (VMap ?m) = Facade self"
      "FrozenJSON_keys self = Inr ks" "set ks = store_key ` fst ` set ?m"
    by (elim conjE exE)
  from s(3) sk have s3: "set ks = {''nChan'', ''class_''}"
    by (rule trans)
  have A: "\<exists>self ks. FrozenJSON_new (VMap ?m) = Facade self \<and>
       FrozenJSON_keys self = Inr ks \<and> set ks = {''nChan'', ''class_''}"
    by (rule exI [of _ self], rule exI [of _ ks], intro conjI, rule s(1), rule s(2), rule s3)
  from w obtain ys where y: "FrozenJSON_new (VList ?xs) = Seq ys" "length ys = length ?xs"
    by (elim conjE exE)
  from y(2) have y2: "length ys = 2"
    by simp
  have B: "\<exists>ys. FrozenJSON_new (VList ?xs) = Seq ys \<and> length ys = 2"
    by (rule exI [of _ ys], intro conjI, rule y(1), rule y2)
  have sc: "is_scalar (VStr ''a'')"
    by simp
  from w have "is_scalar (VStr ''a'') \<longrightarrow> FrozenJSON_new (VStr ''a'') = Plain (VStr ''a'')"
    by (elim conjE)
  from this sc have C: "FrozenJSON_new (VStr ''a'') = Plain (VStr ''a'')"
    by (rule mp)
  from A B C show ?thesis
    by (intro conjI)
qed

text \<open>
  C7 as stated fails for a mapping with a keyword key: \<open>keys()\<close> of the instance built from
  \<open>{'class': 1}\<close> is \<open>['class_']\<close>, which is not the key set of the mapping.
\<close>

theorem wrap_keys_counterexample:
  "FrozenJSON_new (VMap [(''class'', VInt 1)]) = Facade (FrozenJSON_init [(''class'', VInt 1)]) \<and>
   FrozenJSON_keys (FrozenJSON_init [(''class'', VInt 1)]) = Inr [''class_''] \<and>
   set [''class_''] \<noteq> fst ` set [(''class'', VInt 1)]"
  by (simp add: keys_init store_key_def iskeyword_def kwlist_def)

subsection \<open>Keys that are keywords\<close>

text \<open>
  C3, as the code has it. A supplied key that is a keyword is stored under the name with
  \<open>'_'\<close> appended and not under its own name: indexed lookup of the original name raises the
  \<open>ValueError\<close> of a missing key and attribute access to it raises \<open>KeyError\<close>. The value is
  found under the modified name, by attribute access and (when it is not \<open>None\<close>) by indexed
  lookup, if the mapping has no other key equal to the modified name.
\<close>

theorem keyword_key_renamed:
  "(key, v) \<in> set mapping \<Longrightarrow> iskeyword key \<Longrightarrow>
   (\<exists>ks. FrozenJSON_keys (FrozenJSON_init mapping) = Inr ks \<and>
      key @ ''_'' \<in> set ks \<and> key \<notin> set ks \<and>
      FrozenJSON_getitem (FrozenJSON_init mapping) key = Inl (ValueError_NoValue VNone key ks)) \<and>
   FrozenJSON_getattr (FrozenJSON_init mapping) key = Inl (KeyError (Plain (VStr key))) \<and>
   (distinct (map fst mapping) \<and> key @ ''_'' \<notin> fst ` set mapping \<longrightarrow>
      FrozenJSON_getattr (FrozenJSON_init mapping) (key @ ''_'') = Inr (FrozenJSON_new v) \<and>
      (v \<noteq> VNone \<longrightarrow> FrozenJSON_getitem (FrozenJSON_init mapping) (key @ ''_'') = Inr v))"
proof -
  assume mem: "(key, v) \<in> set mapping" and kw: "iskeyword key"
  let ?self = "FrozenJSON_init mapping"
  let ?d = "fill_data mapping []"
  have keys: "fst ` set ?d = store_key ` fst ` set mapping"
    using fill_data_keys [of mapping "[]"] by simp
  have sk: "store_key key = key @ ''_''"
    using kw by (simp add: store_key_def)
  have in_keys: "key @ ''_'' \<in> fst ` set ?d"
    unfolding keys using mem sk by force
  have not_in: "key \<notin> fst ` set ?d"
    unfolding keys using store_key_eq_keyword [OF kw] by auto
  have path: "self_path_to_file ?self = VNone"
    by (simp add: self_path_to_file_def FrozenJSON_init_def)
  from not_in have none: "map_of ?d key = None"
    by (simp add: map_of_eq_None_iff)
  have gi: "FrozenJSON_getitem ?self key = Inl (ValueError_NoValue VNone key (map fst ?d))"
    using none by (simp add: FrozenJSON_getitem_def dict_get_def path)
  have ga: "FrozenJSON_getattr ?self key = Inl (KeyError (Plain (VStr key)))"
    using none keyword_not_attr [OF kw] by (simp add: FrozenJSON_getattr_def)
  have first: "\<exists>ks. FrozenJSON_keys ?self = Inr ks \<and>
      key @ ''_'' \<in> set ks \<and> key \<notin> set ks \<and>
      FrozenJSON_getitem ?self key = Inl (ValueError_NoValue VNone key ks)"
    using keys_init [of mapping] in_keys not_in gi by simp
  have renamed: "map_of ?d (key @ ''_'') = Some v"
    if dist: "distinct (map fst mapping)" and fresh: "key @ ''_'' \<notin> fst ` set mapping"
  proof -
    let ?xs = "rev (map (\<lambda>(k', v). (store_key k', v)) mapping)"
    have a: "(key @ ''_'', v) \<in> set ?xs"
      using mem sk by force
    have b: "v' = v" if "(key @ ''_'', v') \<in> set ?xs" for v'
    proof -
      from that obtain k' where k': "(k', v') \<in> set mapping" "store_key k' = key @ ''_''"
        by auto
      from store_key_eq_renamed [OF kw k'(2)] fresh k'(1) have "k' = key"
        by force
      with k'(1) mem dist show ?thesis
        by (metis eq_key_imp_eq_value)
    qed
    from a b have "map_of ?xs (key @ ''_'') = Some v"
      by (rule map_of_unique)
    then show ?thesis
      by (simp add: map_of_fill_data)
  qed
  have second: "FrozenJSON_getattr ?self (key @ ''_'') = Inr (FrozenJSON_new v) \<and>
      (v \<noteq> VNone \<longrightarrow> FrozenJSON_getitem ?self (key @ ''_'') = Inr v)"
    if "distinct (map fst mapping)" and "key @ ''_'' \<notin> fst ` set mapping"
    using renamed [OF that] keyword_not_attr [OF kw]
    by (simp add: FrozenJSON_getattr_def FrozenJSON_getitem_def dict_get_def)
  from first ga second show ?thesis by blast
qed

theorem keyword_key_renamed_witness:
  "FrozenJSON_getattr (FrozenJSON_init [(''class'', VInt 1)]) ''class'' =
     Inl (KeyError (Plain (VStr ''class''))) \<and>
   FrozenJSON_getattr (FrozenJSON_init [(''class'', VInt 1)]) ''class_'' = Inr (Plain (VInt 1)) \<and>
   FrozenJSON_getitem (FrozenJSON_init [(''class'', VInt 1)]) ''class_'' = Inr (VInt 1)"
proof -
  have mem: "(''class'', VInt 1) \<in> set [(''class'', VInt 1)]" by simp
  have kw: "iskeyword ''class''" by (simp add: iskeyword_def kwlist_def)
  from keyword_key_renamed [OF mem kw] show ?thesis by simp
qed

text \<open>
  C3 as stated fails: with \<open>{'class': 1}\<close>, looking \<open>class\<close> up by its original name raises
  in both forms of lookup.
\<close>

theorem keyword_lookup_counterexample:
  "iskeyword ''class'' \<and>
   FrozenJSON_getitem (FrozenJSON_init [(''class'', VInt 1)]) ''class'' =
     Inl (ValueError_NoValue VNone ''class'' [''class_'']) \<and>
   FrozenJSON_getattr (FrozenJSON_init [(''class'', VInt 1)]) ''class'' =
     Inl (KeyError (Plain (VStr ''class'')))"
  by (simp add: FrozenJSON_getitem_def FrozenJSON_getattr_def dict_get_def
      self_path_to_file_def FrozenJSON_init_def self_data_def store_key_def iskeyword_def
      kwlist_def hasattr_dict_def dict_attrs_def)

section \<open>Properties of Config\<close>

lemma bindE_Inl [simp]: "bindE (Inl e) f = Inl e"
  by (simp add: bindE_def)

lemma bindE_Inr [simp]: "bindE (Inr x) f = f x"
  by (simp add: bindE_def)

lemma bindE_eq_Inr: "bindE r f = Inr y \<longleftrightarrow> (\<exists>x. r = Inr x \<and> f x = Inr y)"
  by (cases r) simp_all

subsection \<open>Validation\<close>

lemma pretty_iterator_nonempty: "vs \<noteq> [] \<Longrightarrow> \<exists>p. pretty_iterator vs = Inr p"
  by (cases vs) simp_all

lemma validate_violation:
  "\<exists>(k, v) \<in> set m. violates s k v \<Longrightarrow>
   \<exists>k v vs p. (k, v) \<in> set m \<and> map_of s k = Some vs \<and> vs \<noteq> [] \<and> \<not> value_in v vs \<and>
     pretty_iterator vs = Inr p \<and> validate s m = Inl (ValueError_NotValid v k p)"
proof (induction m)
  case Nil
  then show ?case by simp
next
  case (Cons x rest)
  obtain key v where x: "x = (key, v)"
    by (cases x)
  show ?case
  proof (cases "violates s key v")
    case True
    then obtain vs where vs: "map_of s key = Some vs" "vs \<noteq> []" "\<not> value_in v vs"
      by (auto simp: violates_def split: option.splits)
    from pretty_iterator_nonempty [OF vs(2)] obtain p where p: "pretty_iterator vs = Inr p"
      by blast
    have "validate s (x # rest) = Inl (ValueError_NotValid v key p)"
      using vs p by (simp add: x)
    with vs p x show ?thesis
      by (intro exI [of _ key] exI [of _ v] exI [of _ vs] exI [of _ p]) simp
  next
    case False
    then have skip: "validate s (x # rest) = validate s rest"
      by (auto simp: x violates_def split: option.splits)
    from False Cons.prems have "\<exists>(k, v) \<in> set rest. violates s k v"
      by (auto simp: x)
    from Cons.IH [OF this] obtain k' v' vs p where
      "(k', v') \<in> set rest" "map_of s k' = Some vs" "vs \<noteq> []" "\<not> value_in v' vs"
      "pretty_iterator vs = Inr p" "validate s rest = Inl (ValueError_NotValid v' k' p)"
      by blast
    then show ?thesis
      unfolding skip
      by (intro exI [of _ k'] exI [of _ v'] exI [of _ vs] exI [of _ p]) simp
  qed
qed

lemma validate_ok: "\<forall>(k, v) \<in> set m. \<not> violates s k v \<Longrightarrow> validate s m = Inr ()"
proof (induction m)
  case Nil
  then show ?case by simp
next
  case (Cons x rest)
  obtain key v where x: "x = (key, v)"
    by (cases x)
  from Cons.prems have nv: "\<not> violates s key v" and rest: "\<forall>(k, v) \<in> set rest. \<not> violates s k v"
    by (auto simp: x)
  from nv have "validate s (x # rest) = validate s rest"
    by (auto simp: x violates_def split: option.splits)
  with Cons.IH [OF rest] show ?case
    by simp
qed

text \<open>
  C5. A key is constrained when the schema gives it a non-empty list of permitted values
  (the test \<open>if valid_values\<close> of \<open>_validate\<close>). If the mapping has a constrained key whose
  value is not in its list, \<open>_validate\<close> raises the \<open>ValueError\<close> that carries such a value,
  its key and the permitted values joined by \<open>', '\<close>, and \<open>Config(mapping)\<close> raises that
  same error: \<open>_validate\<close> runs first, so no store is built and no collaborator is called.
  If every constrained key has a permitted value, \<open>_validate\<close> raises nothing.
\<close>

theorem validation_first:
  "((\<exists>(k, v) \<in> set mapping. violates (validator e) k v) \<longrightarrow>
      (\<exists>k v vs p. (k, v) \<in> set mapping \<and> map_of (validator e) k = Some vs \<and>
         \<not> value_in v vs \<and> pretty_iterator vs = Inr p \<and>
         validate (validator e) mapping = Inl (ValueError_NotValid v k p) \<and>
         Config_init e mapping = Inl (ValueError_NotValid v k p))) \<and>
   ((\<forall>(k, v) \<in> set mapping. \<not> violates (validator e) k v) \<longrightarrow>
      validate (validator e) mapping = Inr ())"
proof (intro conjI impI)
  assume "\<exists>(k, v) \<in> set mapping. violates (validator e) k v"
  from validate_violation [OF this] obtain k v vs p where
    h: "(k, v) \<in> set mapping" "map_of (validator e) k = Some vs" "\<not> value_in v vs"
      "pretty_iterator vs = Inr p"
      "validate (validator e) mapping = Inl (ValueError_NotValid v k p)"
    by blast
  from h(5) have "Config_init e mapping = Inl (ValueError_NotValid v k p)"
    by (simp add: Config_init_def)
  with h show "\<exists>k v vs p. (k, v) \<in> set mapping \<and> map_of (validator e) k = Some vs \<and>
         \<not> value_in v vs \<and> pretty_iterator vs = Inr p \<and>
         validate (validator e) mapping = Inl (ValueError_NotValid v k p) \<and>
         Config_init e mapping = Inl (ValueError_NotValid v k p)"
    by (intro exI [of _ k] exI [of _ v] exI [of _ vs] exI [of _ p]) simp
next
  assume "\<forall>(k, v) \<in> set mapping. \<not> violates (validator e) k v"
  then show "validate (validator e) mapping = Inr ()"
    by (rule validate_ok)
qed

subsection \<open>The write log\<close>

lemma self_data_update_data [simp]: "self_data (AList.update ''_data'' (VMap d) s) = Some d"
  by (simp add: self_data_def update_conv')

lemma set_param_eq_Inr:
  "set_param n v c = Inr c' \<longleftrightarrow>
     (\<exists>d. self_data (inst c) = Some d \<and>
        c' = \<lparr>inst = AList.update ''_data'' (VMap (AList.update n v d)) (inst c),
              written = written c @ [(n, map fst d)]\<rparr>)"
  by (auto simp: set_param_def split: option.splits)

lemma trace_ok_Nil [simp]: "trace_ok K []"
  by (simp add: trace_ok_def)












subsection \<open>The batch plan\<close>

lemma not_attr:
  "\<not> hasattr_dict ''maxMem''" "\<not> hasattr_dict ''nChan''" "\<not> hasattr_dict ''dsize''"
  "\<not> hasattr_dict ''size''" "\<not> hasattr_dict ''partialDat''" "\<not> hasattr_dict ''nBatches''"
  "\<not> hasattr_dict ''dtype''"
  by (simp_all add: hasattr_dict_def dict_attrs_def)

lemma getattr_store:
  "self_data s = Some d \<Longrightarrow> \<not> hasattr_dict n \<Longrightarrow>
   FrozenJSON_getattr s n =
     (case map_of d n of None \<Rightarrow> Inl (KeyError (Plain (VStr n))) | Some v \<Rightarrow> Inr (FrozenJSON_new v))"
  by (simp add: FrozenJSON_getattr_def)

lemma getitem_store:
  "self_data s = Some d \<Longrightarrow> map_of d n = Some v \<Longrightarrow> v \<noteq> VNone \<Longrightarrow> FrozenJSON_getitem s n = Inr v"
  by (simp add: FrozenJSON_getitem_def dict_get_def)

lemma single_batch_plan:
  assumes "single_batch c1 = Inr c" and "self_data (inst c1) = Some d1"
  shows "\<exists>S. int_attr (inst c1) ''size'' = Inr S \<and>
     self_data (inst c) = Some (AList.update ''nPortion'' (VInt 1) (AList.update ''residual'' (VInt 0)
        (AList.update ''batch_size'' (VInt S) (AList.update ''nBatches'' (VInt 1) d1))))"
  using assms
  by (auto simp: single_batch_def bindE_eq_Inr set_param_eq_Inr int_attr_def getattr_store not_attr
      update_conv')

lemma multi_batch_plan:
  assumes "multi_batch bs c1 = Inr c" and "self_data (inst c1) = Some d1"
  shows "\<exists>S P. int_attr (inst c1) ''size'' = Inr S \<and> num_attr (inst c1) ''partialDat'' = Inr P \<and>
     bs \<noteq> 0 \<and>
     self_data (inst c) = Some
       (AList.update ''nPortion'' (VFloat (of_int \<lceil>P * of_int \<lceil>of_int S / (of_int bs :: rat)\<rceil>\<rceil>))
       (AList.update ''residual'' (VInt (S mod bs))
       (AList.update ''batch_size'' (VInt bs)
       (AList.update ''nBatches'' (VInt \<lceil>of_int S / (of_int bs :: rat)\<rceil>) d1))))"
  using assms
  by (auto simp: multi_batch_def bindE_eq_Inr set_param_eq_Inr int_attr_def num_attr_def
      getattr_store not_attr update_conv' as_num_def split: if_splits)


lemma attr_after:
  "self_data s = Some d \<Longrightarrow> self_data s' = Some d' \<Longrightarrow> map_of d' n = map_of d n \<Longrightarrow>
   FrozenJSON_getattr s' n = FrozenJSON_getattr s n"
  by (simp add: FrozenJSON_getattr_def)

lemma derive_batches_plan:
  assumes "derive_batches c0 = Inr c"
  shows "\<exists>d1 M C D S. num_attr (inst c) ''maxMem'' = Inr M \<and> num_attr (inst c) ''nChan'' = Inr C \<and>
     num_attr (inst c) ''dsize'' = Inr D \<and> int_attr (inst c) ''size'' = Inr S \<and> C * D \<noteq> 0 \<and>
     (if \<lfloor>M / (C * D)\<rfloor> > S
      then self_data (inst c) = Some (AList.update ''nPortion'' (VInt 1)
             (AList.update ''residual'' (VInt 0) (AList.update ''batch_size'' (VInt S)
             (AList.update ''nBatches'' (VInt 1) d1))))
      else \<lfloor>M / (C * D)\<rfloor> \<noteq> 0 \<and>
        (\<exists>P. num_attr (inst c) ''partialDat'' = Inr P \<and>
           self_data (inst c) = Some
             (AList.update ''nPortion''
                (VFloat (of_int \<lceil>P * of_int \<lceil>of_int S / (of_int \<lfloor>M / (C * D)\<rfloor> :: rat)\<rceil>\<rceil>))
             (AList.update ''residual'' (VInt (S mod \<lfloor>M / (C * D)\<rfloor>))
             (AList.update ''batch_size'' (VInt \<lfloor>M / (C * D)\<rfloor>)
             (AList.update ''nBatches'' (VInt \<lceil>of_int S / (of_int \<lfloor>M / (C * D)\<rfloor> :: rat)\<rceil>) d1))))))"
proof -
  from assms obtain c1 v M C D S where
    sp: "set_param ''dsize'' v c0 = Inr c1"
    and rd: "num_attr (inst c1) ''maxMem'' = Inr M" "num_attr (inst c1) ''nChan'' = Inr C"
      "num_attr (inst c1) ''dsize'' = Inr D" "int_attr (inst c1) ''size'' = Inr S"
    and nz: "C * D \<noteq> 0"
    and br: "(if \<lfloor>M / (C * D)\<rfloor> > S then single_batch c1 else multi_batch \<lfloor>M / (C * D)\<rfloor> c1) = Inr c"
    unfolding derive_batches_def bindE_eq_Inr num_attr_def int_attr_def Let_def
    by (elim exE conjE) (auto split: if_splits simp: bindE_eq_Inr)
  from sp obtain d1 where d1: "self_data (inst c1) = Some d1"
    by (auto simp: set_param_eq_Inr)
  show ?thesis
  proof (cases "\<lfloor>M / (C * D)\<rfloor> > S")
    case True
    with br have "single_batch c1 = Inr c" by simp
    from single_batch_plan [OF this d1] rd(4) have
      d: "self_data (inst c) = Some (AList.update ''nPortion'' (VInt 1)
             (AList.update ''residual'' (VInt 0) (AList.update ''batch_size'' (VInt S)
             (AList.update ''nBatches'' (VInt 1) d1))))"
      by simp
    have same: "FrozenJSON_getattr (inst c) n = FrozenJSON_getattr (inst c1) n"
      if "n \<in> {''maxMem'', ''nChan'', ''dsize'', ''size''}" for n
      using that by (intro attr_after [OF d1 d]) (auto simp: update_conv')
    from rd same have "num_attr (inst c) ''maxMem'' = Inr M" "num_attr (inst c) ''nChan'' = Inr C"
      "num_attr (inst c) ''dsize'' = Inr D" "int_attr (inst c) ''size'' = Inr S"
      by (simp_all add: num_attr_def int_attr_def)
    with nz True d show ?thesis
      by (intro exI [of _ d1] exI [of _ M] exI [of _ C] exI [of _ D] exI [of _ S]) simp
  next
    case False
    with br have "multi_batch \<lfloor>M / (C * D)\<rfloor> c1 = Inr c" by simp
    from multi_batch_plan [OF this d1] rd(4) obtain P where
      P: "num_attr (inst c1) ''partialDat'' = Inr P" and bz: "\<lfloor>M / (C * D)\<rfloor> \<noteq> 0"
      and d: "self_data (inst c) = Some
             (AList.update ''nPortion''
                (VFloat (of_int \<lceil>P * of_int \<lceil>of_int S / (of_int \<lfloor>M / (C * D)\<rfloor> :: rat)\<rceil>\<rceil>))
             (AList.update ''residual'' (VInt (S mod \<lfloor>M / (C * D)\<rfloor>))
             (AList.update ''batch_size'' (VInt \<lfloor>M / (C * D)\<rfloor>)
             (AList.update ''nBatches'' (VInt \<lceil>of_int S / (of_int \<lfloor>M / (C * D)\<rfloor> :: rat)\<rceil>) d1))))"
      by auto
    have same: "FrozenJSON_getattr (inst c) n = FrozenJSON_getattr (inst c1) n"
      if "n \<in> {''maxMem'', ''nChan'', ''dsize'', ''size'', ''partialDat''}" for n
      using that by (intro attr_after [OF d1 d]) (auto simp: update_conv')
    from rd P same have r: "num_attr (inst c) ''maxMem'' = Inr M" "num_attr (inst c) ''nChan'' = Inr C"
      "num_attr (inst c) ''dsize'' = Inr D" "int_attr (inst c) ''size'' = Inr S"
      "num_attr (inst c) ''partialDat'' = Inr P"
      by (simp_all add: num_attr_def int_attr_def)
    have "\<exists>P. num_attr (inst c) ''partialDat'' = Inr P \<and>
           self_data (inst c) = Some
             (AList.update ''nPortion''
                (VFloat (of_int \<lceil>P * of_int \<lceil>of_int S / (of_int \<lfloor>M / (C * D)\<rfloor> :: rat)\<rceil>\<rceil>))
             (AList.update ''residual'' (VInt (S mod \<lfloor>M / (C * D)\<rfloor>))
             (AList.update ''batch_size'' (VInt \<lfloor>M / (C * D)\<rfloor>)
             (AList.update ''nBatches'' (VInt \<lceil>of_int S / (of_int \<lfloor>M / (C * D)\<rfloor> :: rat)\<rceil>) d1))))"
      using r(5) d by (intro exI [of _ P]) simp
    with r nz False bz show ?thesis
      by (intro exI [of _ d1] exI [of _ M] exI [of _ C] exI [of _ D] exI [of _ S]) simp
  qed
qed

lemma Config_init_batches:
  assumes "Config_init e mapping = Inr c"
  shows "\<exists>cb. derive_batches cb = Inr c"
  using assms unfolding Config_init_def bindE_eq_Inr by blast

lemma getitem_int_attr:
  "FrozenJSON_getitem s n = Inr (VInt i) \<Longrightarrow> \<not> hasattr_dict n \<Longrightarrow> int_attr s n = Inr i"
  by (auto simp: FrozenJSON_getitem_def dict_get_def int_attr_def FrozenJSON_getattr_def
      as_int_def Let_def split: option.splits if_splits)

lemma getitem_update_same:
  "self_data s = Some (AList.update n v d) \<Longrightarrow> v \<noteq> VNone \<Longrightarrow> FrozenJSON_getitem s n = Inr v"
  by (simp add: FrozenJSON_getitem_def dict_get_def update_conv')

lemma getitem_update_other:
  "self_data s = Some (AList.update m w d) \<Longrightarrow> m \<noteq> n \<Longrightarrow> map_of d n = Some v \<Longrightarrow> v \<noteq> VNone \<Longrightarrow>
   FrozenJSON_getitem s n = Inr v"
  by (simp add: FrozenJSON_getitem_def dict_get_def update_conv')


text \<open>
  C1, as the code has it. The test of line 146 is strict. If \<open>floor(maxMem / (nChan * dsize))\<close>
  is greater than the sample count \<open>nsamp\<close>, the stored plan is \<open>nBatches = 1\<close>,
  \<open>batch_size = nsamp\<close>, \<open>residual = 0\<close>, \<open>nPortion = 1\<close>. If it equals \<open>nsamp\<close>, the other
  branch runs and stores \<open>nBatches = 1\<close>, \<open>batch_size = nsamp\<close>, \<open>residual = 0\<close> and
  \<open>nPortion = ceil(partialDat)\<close>.
\<close>

theorem batch_plan_single:
  assumes "Config_init e mapping = Inr c"
    and "num_attr (inst c) ''maxMem'' = Inr maxMem"
    and "num_attr (inst c) ''nChan'' = Inr nChan"
    and "num_attr (inst c) ''dsize'' = Inr dsize"
    and "FrozenJSON_getitem (inst c) ''size'' = Inr (VInt nsamp)"
  shows "(nsamp < \<lfloor>maxMem / (nChan * dsize)\<rfloor> \<longrightarrow>
      FrozenJSON_getitem (inst c) ''nBatches'' = Inr (VInt 1) \<and>
      FrozenJSON_getitem (inst c) ''batch_size'' = Inr (VInt nsamp) \<and>
      FrozenJSON_getitem (inst c) ''residual'' = Inr (VInt 0) \<and>
      FrozenJSON_getitem (inst c) ''nPortion'' = Inr (VInt 1)) \<and>
    (\<lfloor>maxMem / (nChan * dsize)\<rfloor> = nsamp \<longrightarrow>
      (\<exists>partialDat. num_attr (inst c) ''partialDat'' = Inr partialDat \<and>
      FrozenJSON_getitem (inst c) ''nBatches'' = Inr (VInt 1) \<and>
      FrozenJSON_getitem (inst c) ''batch_size'' = Inr (VInt nsamp) \<and>
      FrozenJSON_getitem (inst c) ''residual'' = Inr (VInt 0) \<and>
      FrozenJSON_getitem (inst c) ''nPortion'' = Inr (VFloat (of_int \<lceil>partialDat\<rceil>))))"
proof -
  from Config_init_batches [OF assms(1)] obtain cb where "derive_batches cb = Inr c"
    by blast
  from derive_batches_plan [OF this] assms(2-4) getitem_int_attr [OF assms(5) not_attr(4)]
  obtain d1 where plan:
    "if \<lfloor>maxMem / (nChan * dsize)\<rfloor> > nsamp
      then self_data (inst c) = Some (AList.update ''nPortion'' (VInt 1)
             (AList.update ''residual'' (VInt 0) (AList.update ''batch_size'' (VInt nsamp)
             (AList.update ''nBatches'' (VInt 1) d1))))
      else \<lfloor>maxMem / (nChan * dsize)\<rfloor> \<noteq> 0 \<and>
        (\<exists>P. num_attr (inst c) ''partialDat'' = Inr P \<and>
           self_data (inst c) = Some
             (AList.update ''nPortion''
                (VFloat (of_int \<lceil>P * of_int \<lceil>of_int nsamp / (of_int \<lfloor>maxMem / (nChan * dsize)\<rfloor> :: rat)\<rceil>\<rceil>))
             (AList.update ''residual'' (VInt (nsamp mod \<lfloor>maxMem / (nChan * dsize)\<rfloor>))
             (AList.update ''batch_size'' (VInt \<lfloor>maxMem / (nChan * dsize)\<rfloor>)
             (AList.update ''nBatches'' (VInt \<lceil>of_int nsamp / (of_int \<lfloor>maxMem / (nChan * dsize)\<rfloor> :: rat)\<rceil>) d1)))))"
    by auto
  have strict: "FrozenJSON_getitem (inst c) ''nBatches'' = Inr (VInt 1) \<and>
      FrozenJSON_getitem (inst c) ''batch_size'' = Inr (VInt nsamp) \<and>
      FrozenJSON_getitem (inst c) ''residual'' = Inr (VInt 0) \<and>
      FrozenJSON_getitem (inst c) ''nPortion'' = Inr (VInt 1)"
    if "nsamp < \<lfloor>maxMem / (nChan * dsize)\<rfloor>"
    using plan that by (simp add: FrozenJSON_getitem_def dict_get_def update_conv')
  have equal: "\<exists>partialDat. num_attr (inst c) ''partialDat'' = Inr partialDat \<and>
      FrozenJSON_getitem (inst c) ''nBatches'' = Inr (VInt 1) \<and>
      FrozenJSON_getitem (inst c) ''batch_size'' = Inr (VInt nsamp) \<and>
      FrozenJSON_getitem (inst c) ''residual'' = Inr (VInt 0) \<and>
      FrozenJSON_getitem (inst c) ''nPortion'' = Inr (VFloat (of_int \<lceil>partialDat\<rceil>))"
    if eq: "\<lfloor>maxMem / (nChan * dsize)\<rfloor> = nsamp"
  proof -
    from plan eq obtain P where nz: "nsamp \<noteq> 0" and P: "num_attr (inst c) ''partialDat'' = Inr P"
      and d: "self_data (inst c) = Some
             (AList.update ''nPortion'' (VFloat (of_int \<lceil>P * of_int \<lceil>of_int nsamp / (of_int nsamp :: rat)\<rceil>\<rceil>))
             (AList.update ''residual'' (VInt (nsamp mod nsamp))
             (AList.update ''batch_size'' (VInt nsamp)
             (AList.update ''nBatches'' (VInt \<lceil>of_int nsamp / (of_int nsamp :: rat)\<rceil>) d1))))"
      by auto
    from nz have one: "\<lceil>of_int nsamp / (of_int nsamp :: rat)\<rceil> = 1"
      by simp
    from d P show ?thesis
      unfolding one
      by (intro exI [of _ P]) (simp add: FrozenJSON_getitem_def dict_get_def update_conv')
  qed
  from strict equal show ?thesis
    by blast
qed

section \<open>Concrete runs\<close>

lemma floor_rat_numeral: "\<lfloor>numeral a / numeral b :: rat\<rfloor> = numeral a div numeral b"
  by (metis floor_divide_of_int_eq of_int_numeral)

lemma ceiling_rat_numeral: "\<lceil>numeral a / numeral b :: rat\<rceil> = - (- numeral a div numeral b)"
  using ceiling_divide_eq_div [of "numeral a" "numeral b", where ?'a = rat] by simp

lemmas eval_defs = Config_init_def derive_geometry_def derive_sizes_def derive_batches_def
  single_batch_def multi_batch_def
  set_param_def FrozenJSON_getattr_def FrozenJSON_init_def self_data_def hasattr_dict_def
  dict_attrs_def store_key_def iskeyword_def kwlist_def sample_env_def sample_mapping_def
  value_in_def as_num_def as_int_def path_join_def startswith_def sizeof_def SIZE_table_def
  round_half_even_def trunc_def Let_def overwritten_def floor_rat_numeral ceiling_rat_numeral

lemma map_sum_id_Inr: "map_sum id f r = Inr y \<Longrightarrow> \<exists>x. r = Inr x \<and> f x = y"
  by (cases r) auto



lemma sample_short:
  "map_sum id (\<lambda>c. self_data (inst c))
     (Config_init sample_env (sample_mapping ''short.bin'' (VInt 0))) =
   Inr (Some [(''root'', VStr ''/data''), (''geomFile'', VStr ''geom.txt''),
            (''nChan'', VInt 10), (''spatialRadius'', VInt 70),
            (''spikeSizeMS'', VInt 1), (''srate'', VInt 30000),
            (''filename'', VStr ''short.bin''), (''dtype'', VStr ''int16''),
            (''maxMem'', VInt 10000), (''partialDat'', VInt 0),
            (''geom'', VOpaque ''geom''),
            (''neighChannels'', VOpaque ''neighbors''),
            (''channelGroups'', VOpaque ''groups''),
            (''spikeSize'', VInt 15), (''scaleToSave'', VInt 100),
            (''BUFF'', VInt 60), (''templatesMaxShift'', VInt 30),
            (''stdFactor'', VInt 4), (''size'', VInt 500),
            (''dsize'', VInt 2), (''nBatches'', VInt 1),
            (''batch_size'', VInt 500), (''residual'', VInt 0),
            (''nPortion'', VFloat 0)])"
  by (simp add: eval_defs)

lemma sample_tiny:
  "map_sum id (\<lambda>c. self_data (inst c))
     (Config_init sample_env (sample_mapping ''tiny.bin'' (VFloat (1 / 2)))) =
   Inr (Some [(''root'', VStr ''/data''), (''geomFile'', VStr ''geom.txt''),
            (''nChan'', VInt 10), (''spatialRadius'', VInt 70),
            (''spikeSizeMS'', VInt 1), (''srate'', VInt 30000),
            (''filename'', VStr ''tiny.bin''), (''dtype'', VStr ''int16''),
            (''maxMem'', VInt 10000), (''partialDat'', VFloat (1 / 2)),
            (''geom'', VOpaque ''geom''),
            (''neighChannels'', VOpaque ''neighbors''),
            (''channelGroups'', VOpaque ''groups''),
            (''spikeSize'', VInt 15), (''scaleToSave'', VInt 100),
            (''BUFF'', VInt 60), (''templatesMaxShift'', VInt 30),
            (''stdFactor'', VInt 4), (''size'', VInt 100),
            (''dsize'', VInt 2), (''nBatches'', VInt 1),
            (''batch_size'', VInt 100), (''residual'', VInt 0),
            (''nPortion'', VInt 1)])"
  by (simp add: eval_defs)

text \<open>
  C1 as stated fails where the two quantities are equal: with ten \<open>int16\<close> channels,
  \<open>maxMem = 10000\<close> and a recording of 500 samples, \<open>floor(maxMem / (nChan * dsize))\<close> is
  500, no less than the sample count, and with \<open>partialDat = 0\<close> the stored \<open>nPortion\<close> is
  0, not 1.
\<close>

theorem batch_plan_single_counterexample:
  "map_sum id (\<lambda>c. (num_attr (inst c) ''maxMem'', num_attr (inst c) ''nChan'',
        num_attr (inst c) ''dsize'', FrozenJSON_getitem (inst c) ''size'',
        FrozenJSON_getitem (inst c) ''nPortion''))
     (Config_init sample_env (sample_mapping ''short.bin'' (VInt 0))) =
   Inr (Inr 10000, Inr 10, Inr 2, Inr (VInt 500), Inr (VFloat 0)) \<and>
   (500 :: int) \<le> \<lfloor>(10000 :: rat) / (10 * 2)\<rfloor>"
proof -
  from map_sum_id_Inr [OF sample_short] obtain c where
    c: "Config_init sample_env (sample_mapping ''short.bin'' (VInt 0)) = Inr c"
    and d: "self_data (inst c) = Some [(''root'', VStr ''/data''), (''geomFile'', VStr ''geom.txt''),
            (''nChan'', VInt 10), (''spatialRadius'', VInt 70),
            (''spikeSizeMS'', VInt 1), (''srate'', VInt 30000),
            (''filename'', VStr ''short.bin''), (''dtype'', VStr ''int16''),
            (''maxMem'', VInt 10000), (''partialDat'', VInt 0),
            (''geom'', VOpaque ''geom''),
            (''neighChannels'', VOpaque ''neighbors''),
            (''channelGroups'', VOpaque ''groups''),
            (''spikeSize'', VInt 15), (''scaleToSave'', VInt 100),
            (''BUFF'', VInt 60), (''templatesMaxShift'', VInt 30),
            (''stdFactor'', VInt 4), (''size'', VInt 500),
            (''dsize'', VInt 2), (''nBatches'', VInt 1),
            (''batch_size'', VInt 500), (''residual'', VInt 0),
            (''nPortion'', VFloat 0)]"
    by auto
  show ?thesis
    by (simp add: c num_attr_def getattr_store [OF d] not_attr as_num_def
        FrozenJSON_getitem_def dict_get_def d)
qed

theorem batch_plan_single_witness:
  "map_sum id (\<lambda>c. (FrozenJSON_getitem (inst c) ''nBatches'',
        FrozenJSON_getitem (inst c) ''batch_size'', FrozenJSON_getitem (inst c) ''residual'',
        FrozenJSON_getitem (inst c) ''nPortion''))
     (Config_init sample_env (sample_mapping ''tiny.bin'' (VFloat (1 / 2)))) =
   Inr (Inr (VInt 1), Inr (VInt 100), Inr (VInt 0), Inr (VInt 1)) \<and>
   map_sum id (\<lambda>c. (FrozenJSON_getitem (inst c) ''nBatches'',
        FrozenJSON_getitem (inst c) ''batch_size'', FrozenJSON_getitem (inst c) ''residual'',
        FrozenJSON_getitem (inst c) ''nPortion''))
     (Config_init sample_env (sample_mapping ''short.bin'' (VInt 0))) =
   Inr (Inr (VInt 1), Inr (VInt 500), Inr (VInt 0), Inr (VFloat 0))"
proof -
  from map_sum_id_Inr [OF sample_tiny] obtain c where
    c: "Config_init sample_env (sample_mapping ''tiny.bin'' (VFloat (1 / 2))) = Inr c"
    and d: "self_data (inst c) = Some [(''root'', VStr ''/data''), (''geomFile'', VStr ''geom.txt''),
            (''nChan'', VInt 10), (''spatialRadius'', VInt 70),
            (''spikeSizeMS'', VInt 1), (''srate'', VInt 30000),
            (''filename'', VStr ''tiny.bin''), (''dtype'', VStr ''int16''),
            (''maxMem'', VInt 10000), (''partialDat'', VFloat (1 / 2)),
            (''geom'', VOpaque ''geom''),
            (''neighChannels'', VOpaque ''neighbors''),
            (''channelGroups'', VOpaque ''groups''),
            (''spikeSize'', VInt 15), (''scaleToSave'', VInt 100),
            (''BUFF'', VInt 60), (''templatesMaxShift'', VInt 30),
            (''stdFactor'', VInt 4), (''size'', VInt 100),
            (''dsize'', VInt 2), (''nBatches'', VInt 1),
            (''batch_size'', VInt 100), (''residual'', VInt 0),
            (''nPortion'', VInt 1)]"
    by auto
  have mm: "num_attr (inst c) ''maxMem'' = Inr 10000"
    by (simp add: num_attr_def getattr_store [OF d] not_attr as_num_def)
  have nc: "num_attr (inst c) ''nChan'' = Inr 10"
    by (simp add: num_attr_def getattr_store [OF d] not_attr as_num_def)
  have ds: "num_attr (inst c) ''dsize'' = Inr 2"
    by (simp add: num_attr_def getattr_store [OF d] not_attr as_num_def)
  have sz: "FrozenJSON_getitem (inst c) ''size'' = Inr (VInt 100)"
    by (simp add: FrozenJSON_getitem_def dict_get_def d)
  from batch_plan_single [OF c mm nc ds sz] have tiny:
    "map_sum id (\<lambda>c. (FrozenJSON_getitem (inst c) ''nBatches'',
        FrozenJSON_getitem (inst c) ''batch_size'', FrozenJSON_getitem (inst c) ''residual'',
        FrozenJSON_getitem (inst c) ''nPortion''))
     (Config_init sample_env (sample_mapping ''tiny.bin'' (VFloat (1 / 2)))) =
     Inr (Inr (VInt 1), Inr (VInt 100), Inr (VInt 0), Inr (VInt 1))"
    by (simp add: c)
  from map_sum_id_Inr [OF sample_short] obtain c' where
    c': "Config_init sample_env (sample_mapping ''short.bin'' (VInt 0)) = Inr c'"
    and d': "self_data (inst c') = Some [(''root'', VStr ''/data''), (''geomFile'', VStr ''geom.txt''),
            (''nChan'', VInt 10), (''spatialRadius'', VInt 70),
            (''spikeSizeMS'', VInt 1), (''srate'', VInt 30000),
            (''filename'', VStr ''short.bin''), (''dtype'', VStr ''int16''),
            (''maxMem'', VInt 10000), (''partialDat'', VInt 0),
            (''geom'', VOpaque ''geom''),
            (''neighChannels'', VOpaque ''neighbors''),
            (''channelGroups'', VOpaque ''groups''),
            (''spikeSize'', VInt 15), (''scaleToSave'', VInt 100),
            (''BUFF'', VInt 60), (''templatesMaxShift'', VInt 30),
            (''stdFactor'', VInt 4), (''size'', VInt 500),
            (''dsize'', VInt 2), (''nBatches'', VInt 1),
            (''batch_size'', VInt 500), (''residual'', VInt 0),
            (''nPortion'', VFloat 0)]"
    by auto
  have mm': "num_attr (inst c') ''maxMem'' = Inr 10000"
    by (simp add: num_attr_def getattr_store [OF d'] not_attr as_num_def)
  have nc': "num_attr (inst c') ''nChan'' = Inr 10"
    by (simp add: num_attr_def getattr_store [OF d'] not_attr as_num_def)
  have ds': "num_attr (inst c') ''dsize'' = Inr 2"
    by (simp add: num_attr_def getattr_store [OF d'] not_attr as_num_def)
  have pd': "num_attr (inst c') ''partialDat'' = Inr 0"
    by (simp add: num_attr_def getattr_store [OF d'] not_attr as_num_def)
  have sz': "FrozenJSON_getitem (inst c') ''size'' = Inr (VInt 500)"
    by (simp add: FrozenJSON_getitem_def dict_get_def d')
  from batch_plan_single [OF c' mm' nc' ds' sz'] pd' have short:
    "map_sum id (\<lambda>c. (FrozenJSON_getitem (inst c) ''nBatches'',
        FrozenJSON_getitem (inst c) ''batch_size'', FrozenJSON_getitem (inst c) ''residual'',
        FrozenJSON_getitem (inst c) ''nPortion''))
     (Config_init sample_env (sample_mapping ''short.bin'' (VInt 0))) =
     Inr (Inr (VInt 1), Inr (VInt 500), Inr (VInt 0), Inr (VFloat 0))"
    by (auto simp: c')
  from tiny short show ?thesis
    by (rule conjI)
qed



end
